theory Spec2Isabelle
  imports Complex_Main "HOL-Library.Word"
begin

section \<open>Closure primitives (class ClosurePrimitive of oslclosure.h)\<close>

text \<open>
  The header \<^verbatim>\<open>oslclosure.h\<close> declares three things: the descriptor of a closure
  primitive (\<^verbatim>\<open>ClosurePrimitive\<close>) with its two contract subclasses, and the weighted
  closure buffer (\<^verbatim>\<open>ClosureColor\<close>) with its private \<^verbatim>\<open>Component\<close> struct.

  Conventions of the embedding.
  \<^item> A \<^verbatim>\<open>char\<close> of the parameter arena is a \<open>byte\<close>; a \<^verbatim>\<open>std::vector\<close> is a list.
  \<^item> A C++ \<^verbatim>\<open>int\<close> is an \<open>int\<close>. Every integer of the header is a count, a size or an
    offset into an arena that lives in memory; the embedding reads them as unbounded
    integers (an arena of less than \<open>2^31\<close> bytes, a component list of less than
    \<open>2^31\<close> entries), so that the cast \<^verbatim>\<open>(int) m_components.size()\<close> keeps the value.
  \<^item> \<^verbatim>\<open>float\<close>, \<^verbatim>\<open>Color3\<close> and \<^verbatim>\<open>TypeDesc\<close> come from libraries outside the header.
    The scalar type is a type parameter \<open>'f\<close> (only \<open>1\<close>, \<open>0\<close> and \<open>*\<close> are ever
    used on it), the type descriptor is a type parameter \<open>'ty\<close> and its \<^verbatim>\<open>size()\<close>
    is passed to the operations that call it as the function \<open>tsize\<close>.
  \<^item> A \<^verbatim>\<open>const ClosurePrimitive *\<close> is an address \<open>prim_ptr\<close>; the descriptors live in a
    heap \<open>H\<close> that the buffer operations only read. Every address is taken to point at
    a live descriptor (descriptors are created once and never destroyed).
  \<^item> What C++ leaves undefined (an index outside a vector, a \<^verbatim>\<open>memcpy\<close> that leaves the
    source or the destination) is the error value \<open>UndefinedBehaviour\<close>.
\<close>

type_synonym byte = "8 word"

type_synonym prim_ptr = nat

datatype Category = BSDF | Emissive


datatype error = BadArgType char | UndefinedBehaviour

record 'ty ClosurePrimitive =
  m_name :: string
  m_category :: Category
  m_nargs :: int
  m_argmem :: int
  m_argtypes :: "'ty list"
  m_argoffsets :: "int list"
  m_argcodes :: string

type_synonym 'ty prim_heap = "prim_ptr \<Rightarrow> 'ty ClosurePrimitive"

subsection \<open>Accessors\<close>

text \<open>\<^verbatim>\<open>int nargs () const { return m_nargs; }\<close> (the name \<open>nargs\<close> is the field of
  \<^verbatim>\<open>Component\<close> below).\<close>

definition nargs_prim :: "'ty ClosurePrimitive \<Rightarrow> int" where
  "nargs_prim p = m_nargs p"

definition argcodes :: "'ty ClosurePrimitive \<Rightarrow> string" where
  "argcodes p = m_argcodes p"

text \<open>\<^verbatim>\<open>TypeDesc argtype (int i) const { return m_argtypes[i]; }\<close>\<close>

definition argtype :: "'ty ClosurePrimitive \<Rightarrow> int \<Rightarrow> error + 'ty" where
  "argtype p i =
     (if 0 \<le> i \<and> i < int (length (m_argtypes p)) then Inr (m_argtypes p ! nat i)
      else Inl UndefinedBehaviour)"

text \<open>\<^verbatim>\<open>int argoffset (int i) const { return m_argoffsets[i]; }\<close>\<close>

definition argoffset :: "'ty ClosurePrimitive \<Rightarrow> int \<Rightarrow> error + int" where
  "argoffset p i =
     (if 0 \<le> i \<and> i < int (length (m_argoffsets p)) then Inr (m_argoffsets p ! nat i)
      else Inl UndefinedBehaviour)"

definition argmem :: "'ty ClosurePrimitive \<Rightarrow> int" where
  "argmem p = m_argmem p"


subsection \<open>Construction\<close>

text \<open>
  Modelled from the spec: the constructor
  \<^verbatim>\<open>ClosurePrimitive (const char *name, const char *argtypes, int category)\<close> is declared
  in the header and defined elsewhere. Section 4.1 of the specification: given a name, an
  argument-type-code string (one character per argument) and a category, compute and
  store the parsed argument types, the per-argument offsets (running sum of the preceding
  sizes, no padding), the total size and the code string; fail if the code string
  contains an unrecognised type letter. The table of type letters belongs to the external
  type library: it is the parameter \<open>decode\<close>, and \<open>tsize\<close> is \<^verbatim>\<open>TypeDesc::size()\<close>.

  \<open>parse_argtypes\<close> is the loop over the code string; it extends the descriptor by one
  argument per letter.
\<close>

fun parse_argtypes ::
  "(char \<Rightarrow> 'ty option) \<Rightarrow> ('ty \<Rightarrow> nat) \<Rightarrow> string \<Rightarrow> 'ty ClosurePrimitive
     \<Rightarrow> error + 'ty ClosurePrimitive" where
  "parse_argtypes decode tsize [] p = Inr p"
| "parse_argtypes decode tsize (c # cs) p =
     (case decode c of
        None \<Rightarrow> Inl (BadArgType c)
      | Some t \<Rightarrow>
          parse_argtypes decode tsize cs
            (p\<lparr>m_nargs := m_nargs p + 1,
               m_argmem := m_argmem p + int (tsize t),
               m_argtypes := m_argtypes p @ [t],
               m_argoffsets := m_argoffsets p @ [m_argmem p]\<rparr>))"

text \<open>
  Modelled from the spec: the constructor itself (see above). The header declares the
  category parameter as \<^verbatim>\<open>int\<close> and the member as \<^verbatim>\<open>Category\<close>; both subclasses pass an
  enumerator, which the model hands over as it is.
\<close>

definition ClosurePrimitive_ctor ::
  "(char \<Rightarrow> 'ty option) \<Rightarrow> ('ty \<Rightarrow> nat) \<Rightarrow> string \<Rightarrow> string \<Rightarrow> Category
     \<Rightarrow> error + 'ty ClosurePrimitive" where
  "ClosurePrimitive_ctor decode tsize name argtypes cat =
     parse_argtypes decode tsize argtypes
       \<lparr>m_name = name, m_category = cat, m_nargs = 0, m_argmem = 0,
        m_argtypes = [], m_argoffsets = [], m_argcodes = argtypes\<rparr>"

text \<open>\<^verbatim>\<open>BSDFClosure (const char *name, const char *argtypes)
      : ClosurePrimitive (name, argtypes, BSDF) { }\<close>\<close>

definition BSDFClosure ::
  "(char \<Rightarrow> 'ty option) \<Rightarrow> ('ty \<Rightarrow> nat) \<Rightarrow> string \<Rightarrow> string
     \<Rightarrow> error + 'ty ClosurePrimitive" where
  "BSDFClosure decode tsize name argtypes =
     ClosurePrimitive_ctor decode tsize name argtypes BSDF"


section \<open>The weighted closure buffer (class ClosureColor)\<close>

datatype 'f Color3 = Color3 'f 'f 'f

record 'f Component =
  cprim :: prim_ptr
  nargs :: int
  memoffset :: int
  weight :: "'f Color3"

text \<open>\<^verbatim>\<open>Component (const ClosurePrimitive *prim, const Color3 &w)
      : cprim(prim), nargs(prim->nargs()), memoffset(0), weight(w) { }\<close>\<close>

definition Component_new :: "'ty prim_heap \<Rightarrow> prim_ptr \<Rightarrow> 'f Color3 \<Rightarrow> 'f Component" where
  "Component_new H prim w =
     \<lparr>cprim = prim, nargs = nargs_prim (H prim), memoffset = 0, weight = w\<rparr>"

text \<open>\<^verbatim>\<open>Component (const Component &x)
      : cprim(x.cprim), nargs(cprim->nargs()), memoffset(0), weight(x.weight) { }\<close>
  The members are initialised in the order of their declaration, so \<^verbatim>\<open>cprim\<close> is
  already \<^verbatim>\<open>x.cprim\<close> when \<^verbatim>\<open>nargs\<close> reads it. The copy does not take over
  \<^verbatim>\<open>x.memoffset\<close>: it starts at offset 0 as a new component does.\<close>

definition Component_copy :: "'ty prim_heap \<Rightarrow> 'f Component \<Rightarrow> 'f Component" where
  "Component_copy H x =
     \<lparr>cprim = cprim x, nargs = nargs_prim (H (cprim x)), memoffset = 0, weight = weight x\<rparr>"

record 'f ClosureColor =
  m_components :: "'f Component list"
  m_mem :: "byte list"

text \<open>\<^verbatim>\<open>ClosureColor () { }\<close>: both vectors start empty.\<close>

definition ClosureColor_new :: "'f ClosureColor" where
  "ClosureColor_new = \<lparr>m_components = [], m_mem = []\<rparr>"

text \<open>\<^verbatim>\<open>void clear () { m_components.clear (); m_mem.clear (); }\<close>\<close>

definition clear :: "'f ClosureColor \<Rightarrow> 'f ClosureColor" where
  "clear cc = cc\<lparr>m_components := [], m_mem := []\<rparr>"

subsection \<open>Introspection\<close>

text \<open>\<^verbatim>\<open>int ncomponents () const { return (int) m_components.size(); }\<close>\<close>

definition ncomponents :: "'f ClosureColor \<Rightarrow> int" where
  "ncomponents cc = int (length (m_components cc))"

text \<open>\<^verbatim>\<open>const Component & component (int i) const { return m_components[i]; }\<close>\<close>

definition component :: "'f ClosureColor \<Rightarrow> int \<Rightarrow> error + 'f Component" where
  "component cc i =
     (if 0 \<le> i \<and> i < int (length (m_components cc)) then Inr (m_components cc ! nat i)
      else Inl UndefinedBehaviour)"

text \<open>\<^verbatim>\<open>const Color3 & weight (int i) const { return component(i).weight; }\<close>\<close>

definition weight_cc :: "'f ClosureColor \<Rightarrow> int \<Rightarrow> error + 'f Color3" where
  "weight_cc cc i = (case component cc i of Inl e \<Rightarrow> Inl e | Inr c \<Rightarrow> Inr (weight c))"

text \<open>\<^verbatim>\<open>const ClosurePrimitive * prim (int i) const { return component(i).cprim; }\<close>\<close>

definition prim :: "'f ClosureColor \<Rightarrow> int \<Rightarrow> error + prim_ptr" where
  "prim cc i = (case component cc i of Inl e \<Rightarrow> Inl e | Inr c \<Rightarrow> Inr (cprim c))"

text \<open>\<^verbatim>\<open>const void *compdata (int i) const { return &m_mem[component(i).memoffset]; }\<close>
  The pointer into the arena is the view of the arena from that offset on. The address
  one past the last byte is accepted (a component without parameters that was added
  last), anything beyond is undefined.\<close>

definition compdata :: "'f ClosureColor \<Rightarrow> int \<Rightarrow> error + byte list" where
  "compdata cc i =
     (case component cc i of
        Inl e \<Rightarrow> Inl e
      | Inr c \<Rightarrow>
          (if 0 \<le> memoffset c \<and> memoffset c \<le> int (length (m_mem cc))
           then Inr (drop (nat (memoffset c)) (m_mem cc))
           else Inl UndefinedBehaviour))"

subsection \<open>Building and combining\<close>

text \<open>
  Modelled from the spec: \<^verbatim>\<open>Color3\<close> and its arithmetic belong to the external
  vector library (a 3-component colour): a colour times a scalar and a colour times a
  colour multiply channel by channel.
\<close>

fun Color3_scale :: "'f::times Color3 \<Rightarrow> 'f \<Rightarrow> 'f Color3" where
  "Color3_scale (Color3 r g b) f = Color3 (r * f) (g * f) (b * f)"

fun Color3_times :: "'f::times Color3 \<Rightarrow> 'f Color3 \<Rightarrow> 'f Color3" where
  "Color3_times (Color3 r g b) (Color3 r' g' b') = Color3 (r * r') (g * g') (b * b')"

text \<open>
  Modelled from the spec: \<^verbatim>\<open>add_component (cprim, weight, params = NULL)\<close> is declared in
  the header and defined elsewhere. Section 4.5: appends one component: reserves
  \<^verbatim>\<open>primitive.argmem\<close> bytes at the end of the arena, copies the \<^verbatim>\<open>params\<close> bytes into
  that slot, records the offset and stores the weight; nothing is merged.
  \<open>params\<close> is the memory readable at the pointer (\<open>None\<close> for \<^verbatim>\<open>NULL\<close>, the default
  of the declaration, where the reserved bytes are the zero bytes a growing
  \<^verbatim>\<open>std::vector<char>\<close> gives); copying \<open>argmem\<close> bytes out of fewer is undefined.
\<close>

definition add_component ::
  "'ty prim_heap \<Rightarrow> prim_ptr \<Rightarrow> 'f Color3 \<Rightarrow> byte list option \<Rightarrow> 'f ClosureColor
     \<Rightarrow> error + 'f ClosureColor" where
  "add_component H p w params cc =
     (let newcomp = (Component_new H p w)\<lparr>memoffset := int (length (m_mem cc))\<rparr>;
          n = nat (argmem (H p))
      in if argmem (H p) < 0 then Inl UndefinedBehaviour
         else case params of
           None \<Rightarrow>
             Inr (cc\<lparr>m_components := m_components cc @ [newcomp],
                     m_mem := m_mem cc @ replicate n 0\<rparr>)
         | Some bs \<Rightarrow>
             if length bs < n then Inl UndefinedBehaviour
             else Inr (cc\<lparr>m_components := m_components cc @ [newcomp],
                          m_mem := m_mem cc @ take n bs\<rparr>))"

text \<open>\<^verbatim>\<open>void set (const ClosurePrimitive *prim, const void *params=NULL) {
      clear ();
      add_component (prim, Color3 (1.0f, 1.0f, 1.0f), params);
  }\<close> (the name \<open>set\<close> is taken by the set of a list).\<close>

definition set_cc ::
  "'ty prim_heap \<Rightarrow> prim_ptr \<Rightarrow> byte list option \<Rightarrow> ('f::one) ClosureColor
     \<Rightarrow> error + 'f ClosureColor" where
  "set_cc H p params cc = add_component H p (Color3 1 1 1) params (clear cc)"

text \<open>
  Modelled from the spec: \<^verbatim>\<open>void add (const ClosureColor &A)\<close> (\<^verbatim>\<open>*this += A\<close>) is
  declared in the header and defined elsewhere. Section 4.5: concatenates the component
  lists and the arenas, and must preserve each source buffer's internal
  component/parameter layout (copy, not move). The components of \<open>A\<close> are copied with
  the copy constructor of \<^verbatim>\<open>Component\<close>, and each copy records where its bytes now
  are: behind the bytes this buffer already had. The components this buffer already
  holds are written as they were; whether their recorded offsets outlive a growth of
  the vector (\<open>vector_growth\<close> below) is decided by the absent definition, and no
  theorem here rests on them.
\<close>

definition add :: "'ty prim_heap \<Rightarrow> 'f ClosureColor \<Rightarrow> 'f ClosureColor \<Rightarrow> 'f ClosureColor" where
  "add H A cc =
     cc\<lparr>m_components :=
          m_components cc @
          map (\<lambda>c. (Component_copy H c)\<lparr>memoffset := int (length (m_mem cc)) + memoffset c\<rparr>)
            (m_components A),
        m_mem := m_mem cc @ m_mem A\<rparr>"

text \<open>
  Modelled from the spec: \<^verbatim>\<open>void add (const ClosureColor &a, const ClosureColor &b)\<close>
  (\<^verbatim>\<open>*this = a+b\<close>) is declared in the header and defined elsewhere. Section 4.5: the
  same concatenation, into a fresh buffer: what this buffer held before is dropped.
\<close>

definition add_ab ::
  "'ty prim_heap \<Rightarrow> 'f ClosureColor \<Rightarrow> 'f ClosureColor \<Rightarrow> 'f ClosureColor \<Rightarrow> 'f ClosureColor" where
  "add_ab H a b cc = add H b (add H a (clear cc))"

text \<open>
  Modelled from the spec: \<^verbatim>\<open>void mul (float f)\<close> and \<^verbatim>\<open>void mul (const Color3 &w)\<close>
  (\<^verbatim>\<open>*this *= f\<close>) are declared in the header and defined elsewhere. Section 4.5:
  multiplies every component's weight in place by the given factor; does not touch the
  packed parameter bytes; no renormalisation, no clamping.
\<close>

definition mul_float :: "'f::times \<Rightarrow> 'f ClosureColor \<Rightarrow> 'f ClosureColor" where
  "mul_float f cc =
     cc\<lparr>m_components := map (\<lambda>c. c\<lparr>weight := Color3_scale (weight c) f\<rparr>) (m_components cc)\<rparr>"

definition mul_color :: "'f::times Color3 \<Rightarrow> 'f ClosureColor \<Rightarrow> 'f ClosureColor" where
  "mul_color w cc =
     cc\<lparr>m_components := map (\<lambda>c. c\<lparr>weight := Color3_times (weight c) w\<rparr>) (m_components cc)\<rparr>"

subsection \<open>Late binding of a parameter\<close>

text \<open>\<^verbatim>\<open>memcpy (&mem[dst], src, n)\<close>: the \<open>n\<close> bytes of the arena from index \<open>dst\<close> on
  are replaced by the first \<open>n\<close> bytes readable at \<open>src\<close>. Leaving the arena or the
  source is undefined.\<close>

definition memcpy_at :: "byte list \<Rightarrow> int \<Rightarrow> byte list \<Rightarrow> nat \<Rightarrow> error + byte list" where
  "memcpy_at mem dst src n =
     (if 0 \<le> dst \<and> dst + int n \<le> int (length mem) \<and> n \<le> length src
      then Inr (take (nat dst) mem @ take n src @ drop (nat dst + n) mem)
      else Inl UndefinedBehaviour)"

text \<open>\<^verbatim>\<open>void set_parameter (int component, int param, const void *data) {
      const Component &comp (m_components[component]);
      memcpy (&m_mem[comp.memoffset+comp.cprim->argoffset(param)],
              data, comp.cprim->argtype(param).size());
  }\<close>\<close>

definition set_parameter ::
  "('ty \<Rightarrow> nat) \<Rightarrow> 'ty prim_heap \<Rightarrow> int \<Rightarrow> int \<Rightarrow> byte list \<Rightarrow> 'f ClosureColor
     \<Rightarrow> error + 'f ClosureColor" where
  "set_parameter tsize H ci param data cc =
     (case component cc ci of
        Inl e \<Rightarrow> Inl e
      | Inr c \<Rightarrow>
          (case argoffset (H (cprim c)) param of
             Inl e \<Rightarrow> Inl e
           | Inr off \<Rightarrow>
               (case argtype (H (cprim c)) param of
                  Inl e \<Rightarrow> Inl e
                | Inr t \<Rightarrow>
                    (case memcpy_at (m_mem cc) (memoffset c + off) data (tsize t) of
                       Inl e \<Rightarrow> Inl e
                     | Inr mem' \<Rightarrow> Inr (cc\<lparr>m_mem := mem'\<rparr>)))))"

subsection \<open>Well-formed descriptors and buffers\<close>

text \<open>The parameter bytes of component \<open>i\<close>, as the integrator reads them: the
  \<open>argmem\<close> bytes at \<open>compdata i\<close>.\<close>

definition packed_params :: "'ty prim_heap \<Rightarrow> 'f ClosureColor \<Rightarrow> int \<Rightarrow> error + byte list" where
  "packed_params H cc i =
     (case component cc i of
        Inl e \<Rightarrow> Inl e
      | Inr c \<Rightarrow>
          (case compdata cc i of
             Inl e \<Rightarrow> Inl e
           | Inr bs \<Rightarrow>
               (if 0 \<le> argmem (H (cprim c)) \<and> nat (argmem (H (cprim c))) \<le> length bs
                then Inr (take (nat (argmem (H (cprim c)))) bs)
                else Inl UndefinedBehaviour)))"

text \<open>The invariant of a component in the data model of the specification:
  \<^verbatim>\<open>memoffset + descriptor.argmem <= arena.size()\<close>.\<close>

definition component_ok :: "'ty prim_heap \<Rightarrow> nat \<Rightarrow> 'f Component \<Rightarrow> bool" where
  "component_ok H arena_size c =
     (0 \<le> memoffset c \<and> 0 \<le> argmem (H (cprim c))
      \<and> memoffset c + argmem (H (cprim c)) \<le> int arena_size)"

definition closure_ok :: "'ty prim_heap \<Rightarrow> 'f ClosureColor \<Rightarrow> bool" where
  "closure_ok H cc = list_all (component_ok H (length (m_mem cc))) (m_components cc)"

text \<open>The invariant of a descriptor in the data model of the specification: one offset per
  argument, \<^verbatim>\<open>nargs\<close> of them, and \<^verbatim>\<open>offsets[i] + size(type[i]) <= argmem\<close>.\<close>

definition layout_ok :: "('ty \<Rightarrow> nat) \<Rightarrow> 'ty ClosurePrimitive \<Rightarrow> bool" where
  "layout_ok tsize p =
     (length (m_argoffsets p) = length (m_argtypes p)
      \<and> m_nargs p = int (length (m_argtypes p))
      \<and> list_all (\<lambda>(off, t). 0 \<le> off \<and> off + int (tsize t) \<le> m_argmem p)
           (zip (m_argoffsets p) (m_argtypes p)))"

text \<open>The cached argument count of every component agrees with its descriptor.\<close>

definition nargs_ok :: "'ty prim_heap \<Rightarrow> 'f ClosureColor \<Rightarrow> bool" where
  "nargs_ok H cc = list_all (\<lambda>c. nargs c = nargs_prim (H (cprim c))) (m_components cc)"

text \<open>Exclusive prefix sums, as the specification words the offsets: the offset of an
  argument is the sum of the sizes before it.\<close>

fun exclusive_prefix_sums :: "int \<Rightarrow> int list \<Rightarrow> int list" where
  "exclusive_prefix_sums a [] = []"
| "exclusive_prefix_sums a (s # ss) = a # exclusive_prefix_sums (a + s) ss"

text \<open>
  Modelled from the spec: the external type library, as far as the examples of the
  specification and the header's comment (\<^verbatim>\<open>"vff"\<close> is vector, float, float) name it:
  a float of 4 bytes, and a vector and a colour of three floats each. Only the
  instances at concrete inputs use it.
\<close>

datatype TypeDesc = TypeFloat | TypeVector | TypeColor

fun TypeDesc_size :: "TypeDesc \<Rightarrow> nat" where
  "TypeDesc_size TypeFloat = 4"
| "TypeDesc_size TypeVector = 12"
| "TypeDesc_size TypeColor = 12"

definition TypeDesc_of_code :: "char \<Rightarrow> TypeDesc option" where
  "TypeDesc_of_code c =
     (if c = CHR ''f'' then Some TypeFloat
      else if c = CHR ''v'' then Some TypeVector
      else if c = CHR ''c'' then Some TypeColor
      else None)"

text \<open>What the loop of the constructor keeps true of the descriptor it builds: the
  offsets so far are the exclusive prefix sums of the sizes so far, and the running
  total and the running count are their sum and their number.\<close>

definition layout_inv :: "('ty \<Rightarrow> nat) \<Rightarrow> 'ty ClosurePrimitive \<Rightarrow> bool" where
  "layout_inv tsize p =
     (m_argoffsets p = exclusive_prefix_sums 0 (map (\<lambda>t. int (tsize t)) (m_argtypes p))
      \<and> m_argmem p = sum_list (map (\<lambda>t. int (tsize t)) (m_argtypes p))
      \<and> m_nargs p = int (length (m_argtypes p)))"

subsection \<open>The scenario of the specification\<close>

text \<open>The descriptor of section 8 of the specification: a primitive \<^verbatim>\<open>"diffuse"\<close> with
  signature \<^verbatim>\<open>"v"\<close> (one vector argument), and beside it a second one with signature
  \<^verbatim>\<open>"vff"\<close>. \<open>registry\<close> is a heap that holds the first at address 1 and the second
  everywhere else. They are the concrete inputs of the instances below.\<close>

definition diffuse :: "TypeDesc ClosurePrimitive" where
  "diffuse =
     \<lparr>m_name = ''diffuse'', m_category = BSDF, m_nargs = 1, m_argmem = 12,
      m_argtypes = [TypeVector], m_argoffsets = [0], m_argcodes = ''v''\<rparr>"

definition glossy :: "TypeDesc ClosurePrimitive" where
  "glossy =
     \<lparr>m_name = ''glossy'', m_category = BSDF, m_nargs = 3, m_argmem = 20,
      m_argtypes = [TypeVector, TypeFloat, TypeFloat], m_argoffsets = [0, 12, 16],
      m_argcodes = ''vff''\<rparr>"

definition registry :: "TypeDesc prim_heap" where
  "registry p = (if p = 1 then diffuse else glossy)"

text \<open>The buffer of the scenario: the primitive at address 1 with the identity weight
  and the normal \<open>(0, 0, 1)\<close> as its parameter bytes (three little-endian floats).\<close>

definition unit_diffuse :: "real ClosureColor" where
  "unit_diffuse =
     \<lparr>m_components = [\<lparr>cprim = 1, nargs = 1, memoffset = 0, weight = Color3 1 1 1\<rparr>],
      m_mem = [0, 0, 0, 0, 0, 0, 0, 0, 0, 0, 128, 63]\<rparr>"

text \<open>A buffer of two components: the scenario's primitive with its normal, then the
  primitive at address 2 (signature \<^verbatim>\<open>"vff"\<close>) with weight \<open>(1/2, 1/2, 1/2)\<close> and 20
  parameter bytes that are still zero.\<close>

definition diffuse_glossy :: "real ClosureColor" where
  "diffuse_glossy =
     \<lparr>m_components =
        [\<lparr>cprim = 1, nargs = 1, memoffset = 0, weight = Color3 1 1 1\<rparr>,
         \<lparr>cprim = 2, nargs = 3, memoffset = 12, weight = Color3 (1/2) (1/2) (1/2)\<rparr>],
      m_mem = [0, 0, 0, 0, 0, 0, 0, 0, 0, 0, 128, 63] @ replicate 20 0\<rparr>"

subsection \<open>The growth of the component vector\<close>

text \<open>\<^verbatim>\<open>std::vector<Component> m_components;\<close> When the vector outgrows its capacity it
  takes new storage and copy-constructs the components it holds into it
  (\<^verbatim>\<open>Component\<close> declares a copy constructor, so nothing is moved). When that happens
  is the library's choice of capacity and is not part of the state of the embedding;
  what it does to a buffer is this. The models of \<open>add_component\<close> and \<open>add\<close> above
  append to a list and say nothing of it.\<close>

definition vector_growth :: "'ty prim_heap \<Rightarrow> 'f ClosureColor \<Rightarrow> 'f ClosureColor" where
  "vector_growth H cc = cc\<lparr>m_components := map (Component_copy H) (m_components cc)\<rparr>"

subsection \<open>The buffers the interface can build\<close>

text \<open>Every closure buffer a program can hold: it starts as a new buffer and is changed
  by the public operations of the class only, and its component vector may grow at any
  time in between.\<close>

inductive built :: "'ty prim_heap \<Rightarrow> ('ty \<Rightarrow> nat) \<Rightarrow> ('f::{one,times}) ClosureColor \<Rightarrow> bool"
  for H :: "'ty prim_heap" and tsize :: "'ty \<Rightarrow> nat" where
  built_new: "built H tsize ClosureColor_new"
| built_clear: "built H tsize cc \<Longrightarrow> built H tsize (clear cc)"
| built_set: "built H tsize cc \<Longrightarrow> set_cc H p params cc = Inr cc' \<Longrightarrow> built H tsize cc'"
| built_add_component:
    "built H tsize cc \<Longrightarrow> add_component H p w params cc = Inr cc' \<Longrightarrow> built H tsize cc'"
| built_add: "built H tsize cc \<Longrightarrow> built H tsize A \<Longrightarrow> built H tsize (add H A cc)"
| built_add_ab:
    "built H tsize cc \<Longrightarrow> built H tsize a \<Longrightarrow> built H tsize b
       \<Longrightarrow> built H tsize (add_ab H a b cc)"
| built_mul_float: "built H tsize cc \<Longrightarrow> built H tsize (mul_float f cc)"
| built_mul_color: "built H tsize cc \<Longrightarrow> built H tsize (mul_color w cc)"
| built_set_parameter:
    "built H tsize cc \<Longrightarrow> set_parameter tsize H ci param data cc = Inr cc'
       \<Longrightarrow> built H tsize cc'"
| built_growth: "built H tsize cc \<Longrightarrow> built H tsize (vector_growth H cc)"

section \<open>Clearing a buffer\<close>

text \<open>
  Claim C8. For every closure buffer in any state, after \<^verbatim>\<open>clear()\<close> every introspection
  operation reports an empty buffer: \<^verbatim>\<open>ncomponents()\<close> is 0 and the used length of the
  parameter arena is 0. No index addresses a component, a weight, a primitive or
  parameter bytes any more.
\<close>

theorem clear_reports_empty:
  "ncomponents (clear cc) = 0 \<and> length (m_mem (clear cc)) = 0
   \<and> m_components (clear cc) = [] \<and> m_mem (clear cc) = []
   \<and> (\<forall>i. component (clear cc) i = Inl UndefinedBehaviour)
   \<and> (\<forall>i. weight_cc (clear cc) i = Inl UndefinedBehaviour)
   \<and> (\<forall>i. prim (clear cc) i = Inl UndefinedBehaviour)
   \<and> (\<forall>i. compdata (clear cc) i = Inl UndefinedBehaviour)"
  by (simp add: clear_def ncomponents_def component_def weight_cc_def prim_def compdata_def)

section \<open>The layout of a descriptor\<close>

lemma eps_length: "length (exclusive_prefix_sums a ss) = length ss"
  by (induction ss arbitrary: a) auto

lemma eps_snoc:
  "exclusive_prefix_sums a (ss @ [s]) = exclusive_prefix_sums a ss @ [a + sum_list ss]"
  by (induction ss arbitrary: a) (auto simp: add.assoc)

lemma eps_nth:
  "i < length ss \<Longrightarrow> exclusive_prefix_sums a ss ! i = a + sum_list (take i ss)"
proof (induction ss arbitrary: a i)
  case Nil
  then show ?case by simp
next
  case (Cons s ss)
  show ?case
  proof (cases i)
    case 0
    then show ?thesis by simp
  next
    case (Suc j)
    with Cons.prems have "j < length ss" by simp
    from Cons.IH [OF this, of "a + s"] Suc show ?thesis by (simp add: add.assoc)
  qed
qed

lemma parse_argtypes_inv:
  "parse_argtypes decode tsize cs p = Inr d \<Longrightarrow> layout_inv tsize p \<Longrightarrow> layout_inv tsize d"
proof (induction cs arbitrary: p)
  case Nil
  then show ?case by simp
next
  case (Cons c cs)
  from Cons.prems(1) obtain t where t: "decode c = Some t"
    by (cases "decode c") auto
  let ?p' = "p\<lparr>m_nargs := m_nargs p + 1,
               m_argmem := m_argmem p + int (tsize t),
               m_argtypes := m_argtypes p @ [t],
               m_argoffsets := m_argoffsets p @ [m_argmem p]\<rparr>"
  from Cons.prems(1) t have run: "parse_argtypes decode tsize cs ?p' = Inr d" by simp
  from Cons.prems(2) have "layout_inv tsize ?p'"
    by (simp add: layout_inv_def eps_snoc)
  with run show ?case by (rule Cons.IH)
qed

lemma parse_argtypes_frame:
  "parse_argtypes decode tsize cs p = Inr d \<Longrightarrow>
     m_name d = m_name p \<and> m_category d = m_category p \<and> m_argcodes d = m_argcodes p
     \<and> map Some (m_argtypes d) = map Some (m_argtypes p) @ map decode cs"
proof (induction cs arbitrary: p)
  case Nil
  then show ?case by simp
next
  case (Cons c cs)
  from Cons.prems(1) obtain t where t: "decode c = Some t"
    by (cases "decode c") auto
  with Cons.prems have "parse_argtypes decode tsize cs (p\<lparr>m_nargs := m_nargs p + 1,
               m_argmem := m_argmem p + int (tsize t),
               m_argtypes := m_argtypes p @ [t],
               m_argoffsets := m_argoffsets p @ [m_argmem p]\<rparr>) = Inr d" by simp
  from Cons.IH [OF this] t show ?case by simp
qed

lemma parse_argtypes_total:
  "list_all (\<lambda>c. decode c \<noteq> None) cs \<Longrightarrow> \<exists>d. parse_argtypes decode tsize cs p = Inr d"
  by (induction cs arbitrary: p) auto

lemma parse_argtypes_fails:
  "\<not> list_all (\<lambda>c. decode c \<noteq> None) cs \<Longrightarrow> \<exists>c. parse_argtypes decode tsize cs p = Inl (BadArgType c)"
  by (induction cs arbitrary: p) (auto split: option.splits)

text \<open>
  Claim C4. For every descriptor successfully constructed from a name, an
  argument-type-code string and a category: the stored total parameter size \<open>argmem\<close> is
  the sum of the byte sizes of all parsed argument types, and the stored per-argument
  offsets are the exclusive prefix sums of the argument sizes: \<open>argoffset 0 = 0\<close> and
  \<open>argoffset (i + 1) = argoffset i + size (argtype i)\<close>. The parsed types are the
  decoded letters of the code string, one argument per letter.
\<close>

theorem ClosurePrimitive_ctor_layout:
  assumes "ClosurePrimitive_ctor decode tsize name codes cat = Inr d"
  shows "argmem d = sum_list (map (\<lambda>t. int (tsize t)) (m_argtypes d))
     \<and> map Some (m_argtypes d) = map decode codes
     \<and> nargs_prim d = int (length codes)
     \<and> length (m_argoffsets d) = length codes
     \<and> m_argoffsets d = exclusive_prefix_sums 0 (map (\<lambda>t. int (tsize t)) (m_argtypes d))
     \<and> (0 < nargs_prim d \<longrightarrow> argoffset d 0 = Inr 0)
     \<and> (\<forall>i. 0 \<le> i \<and> i < nargs_prim d \<longrightarrow>
            argoffset d i = Inr (sum_list (map (\<lambda>t. int (tsize t)) (take (nat i) (m_argtypes d)))))
     \<and> (\<forall>i. 0 \<le> i \<and> i + 1 < nargs_prim d \<longrightarrow>
            (\<exists>off t. argoffset d i = Inr off \<and> argtype d i = Inr t
               \<and> argoffset d (i + 1) = Inr (off + int (tsize t))))"
proof -
  let ?p0 = "\<lparr>m_name = name, m_category = cat, m_nargs = 0, m_argmem = 0,
        m_argtypes = [], m_argoffsets = [], m_argcodes = codes\<rparr> :: 'a ClosurePrimitive"
  let ?sz = "map (\<lambda>t. int (tsize t)) (m_argtypes d)"
  from assms have run: "parse_argtypes decode tsize codes ?p0 = Inr d"
    by (simp add: ClosurePrimitive_ctor_def)
  have "layout_inv tsize ?p0" by (simp add: layout_inv_def)
  with run have inv: "layout_inv tsize d" by (rule parse_argtypes_inv)
  from parse_argtypes_frame [OF run] have tys: "map Some (m_argtypes d) = map decode codes"
    by simp
  then have len: "length (m_argtypes d) = length codes"
    by (metis length_map)
  from inv have offs: "m_argoffsets d = exclusive_prefix_sums 0 ?sz"
    and mem: "m_argmem d = sum_list ?sz" and n: "m_nargs d = int (length (m_argtypes d))"
    by (simp_all add: layout_inv_def)
  have lo: "length (m_argoffsets d) = length (m_argtypes d)"
    by (simp add: offs eps_length)
  have nth: "m_argoffsets d ! k = sum_list (take k ?sz)" if "k < length (m_argtypes d)" for k
    using that by (simp add: offs eps_nth)
  have at: "argoffset d i = Inr (sum_list (map (\<lambda>t. int (tsize t)) (take (nat i) (m_argtypes d))))"
    if "0 \<le> i" "i < nargs_prim d" for i
    using that nth [of "nat i"] by (simp add: argoffset_def nargs_prim_def n lo take_map)
  have step: "\<exists>off t. argoffset d i = Inr off \<and> argtype d i = Inr t
               \<and> argoffset d (i + 1) = Inr (off + int (tsize t))"
    if i: "0 \<le> i" "i + 1 < nargs_prim d" for i
  proof -
    from i have k: "nat i < length (m_argtypes d)" "Suc (nat i) < length (m_argtypes d)"
      by (simp_all add: nargs_prim_def n)
    have s: "nat (i + 1) = Suc (nat i)" using i by simp
    have "take (Suc (nat i)) ?sz = take (nat i) ?sz @ [int (tsize (m_argtypes d ! nat i))]"
      using k by (simp add: take_Suc_conv_app_nth)
    then have "m_argoffsets d ! Suc (nat i) = m_argoffsets d ! nat i + int (tsize (m_argtypes d ! nat i))"
      using k by (simp add: nth)
    with i k s show ?thesis
      by (simp add: argoffset_def argtype_def nargs_prim_def n lo)
  qed
  have zero: "argoffset d 0 = Inr 0" if "0 < nargs_prim d"
    using at [of 0] that by simp
  show ?thesis
    using mem tys len n lo offs zero at step by (simp add: argmem_def nargs_prim_def)
qed

theorem ClosurePrimitive_ctor_layout_witness:
  "\<exists>d. ClosurePrimitive_ctor TypeDesc_of_code TypeDesc_size ''glossy'' ''vff'' BSDF = Inr d
     \<and> m_argtypes d = [TypeVector, TypeFloat, TypeFloat]
     \<and> argmem d = 20 \<and> nargs_prim d = 3
     \<and> argoffset d 0 = Inr 0 \<and> argoffset d 1 = Inr 12 \<and> argoffset d 2 = Inr 16"
proof -
  obtain d where d: "ClosurePrimitive_ctor TypeDesc_of_code TypeDesc_size ''glossy'' ''vff'' BSDF = Inr d"
    by (simp add: ClosurePrimitive_ctor_def TypeDesc_of_code_def)
  have tys: "m_argtypes d = [TypeVector, TypeFloat, TypeFloat]"
    using d by (auto simp add: ClosurePrimitive_ctor_def TypeDesc_of_code_def)
  from ClosurePrimitive_ctor_layout [OF d] tys have
    "argmem d = 20" "nargs_prim d = 3" "argoffset d 0 = Inr 0" "argoffset d 1 = Inr 12"
    "argoffset d 2 = Inr 16"
    by simp_all
  with d tys show ?thesis by blast
qed

section \<open>The scenario is what the operations build\<close>

lemma diffuse_constructed:
  "BSDFClosure TypeDesc_of_code TypeDesc_size ''diffuse'' ''v'' = Inr diffuse"
  by (simp add: BSDFClosure_def ClosurePrimitive_ctor_def TypeDesc_of_code_def diffuse_def)

lemma glossy_constructed:
  "BSDFClosure TypeDesc_of_code TypeDesc_size ''glossy'' ''vff'' = Inr glossy"
  by (simp add: BSDFClosure_def ClosurePrimitive_ctor_def TypeDesc_of_code_def glossy_def)

lemma unit_diffuse_built:
  "set_cc registry 1 (Some [0, 0, 0, 0, 0, 0, 0, 0, 0, 0, 128, 63]) ClosureColor_new
     = Inr unit_diffuse"
  by (simp add: set_cc_def add_component_def Component_new_def clear_def ClosureColor_new_def
        registry_def diffuse_def argmem_def nargs_prim_def unit_diffuse_def)

lemma diffuse_glossy_built:
  "add_component registry 2 (Color3 (1/2) (1/2) (1/2)) None unit_diffuse = Inr diffuse_glossy"
  by (simp add: add_component_def Component_new_def unit_diffuse_def diffuse_glossy_def
        registry_def glossy_def argmem_def nargs_prim_def)

lemma closure_ok_diffuse_glossy: "closure_ok registry diffuse_glossy"
  by (simp add: closure_ok_def component_ok_def diffuse_glossy_def registry_def diffuse_def
        glossy_def argmem_def)

lemma layout_ok_registry: "layout_ok TypeDesc_size (registry p)"
  by (simp add: layout_ok_def registry_def diffuse_def glossy_def)

section \<open>The category of a primitive\<close>



section \<open>Setting a buffer to one primitive\<close>

lemma add_component_Some:
  "0 \<le> argmem (H p) \<Longrightarrow> nat (argmem (H p)) \<le> length bs \<Longrightarrow>
   add_component H p w (Some bs) cc =
     Inr (cc\<lparr>m_components := m_components cc @
               [\<lparr>cprim = p, nargs = nargs_prim (H p), memoffset = int (length (m_mem cc)),
                 weight = w\<rparr>],
             m_mem := m_mem cc @ take (nat (argmem (H p))) bs\<rparr>)"
  by (simp add: add_component_def Component_new_def Let_def)

lemma add_component_None:
  "0 \<le> argmem (H p) \<Longrightarrow>
   add_component H p w None cc =
     Inr (cc\<lparr>m_components := m_components cc @
               [\<lparr>cprim = p, nargs = nargs_prim (H p), memoffset = int (length (m_mem cc)),
                 weight = w\<rparr>],
             m_mem := m_mem cc @ replicate (nat (argmem (H p))) 0\<rparr>)"
  by (simp add: add_component_def Component_new_def Let_def)

text \<open>
  Claim C3. For every closure buffer, \<^verbatim>\<open>set(primitive, params)\<close> is \<^verbatim>\<open>clear()\<close> followed
  by a single \<^verbatim>\<open>add_component\<close> with the identity colour \<open>(1, 1, 1)\<close> as weight.
  Afterwards the buffer has exactly one component, its weight is \<open>(1, 1, 1)\<close>, its
  primitive is the given one, and its packed parameter bytes are those supplied (the
  \<open>argmem\<close> bytes at \<open>params\<close>). With the default \<^verbatim>\<open>params = NULL\<close> the single
  component has a reserved slot of \<open>argmem\<close> bytes.
\<close>

theorem set_is_clear_then_add_component:
  "set_cc H p params cc = add_component H p (Color3 1 1 1) params (clear cc)
   \<and> (0 \<le> argmem (H p) \<and> nat (argmem (H p)) \<le> length bs \<longrightarrow>
        (\<exists>cc'. set_cc H p (Some bs) cc = Inr cc'
           \<and> ncomponents cc' = 1
           \<and> weight_cc cc' 0 = Inr (Color3 1 1 1)
           \<and> prim cc' 0 = Inr p
           \<and> compdata cc' 0 = Inr (take (nat (argmem (H p))) bs)
           \<and> packed_params H cc' 0 = Inr (take (nat (argmem (H p))) bs)
           \<and> m_mem cc' = take (nat (argmem (H p))) bs))
   \<and> (0 \<le> argmem (H p) \<longrightarrow>
        (\<exists>cc'. set_cc H p None cc = Inr cc'
           \<and> ncomponents cc' = 1
           \<and> weight_cc cc' 0 = Inr (Color3 1 1 1)
           \<and> prim cc' 0 = Inr p
           \<and> length (m_mem cc') = nat (argmem (H p))))"
  by (simp add: set_cc_def add_component_Some add_component_None clear_def ncomponents_def
        weight_cc_def prim_def compdata_def packed_params_def component_def)


theorem set_is_clear_then_add_component_witness:
  "\<exists>cc'. set_cc registry 1 (Some [0, 0, 0, 0, 0, 0, 0, 0, 0, 0, 128, 63]) ClosureColor_new = Inr cc'
     \<and> ncomponents cc' = 1
     \<and> weight_cc cc' 0 = Inr (Color3 1 1 (1 :: real))
     \<and> prim cc' 0 = Inr 1
     \<and> packed_params registry cc' 0 = Inr [0, 0, 0, 0, 0, 0, 0, 0, 0, 0, 128, 63]"
proof -
  let ?N = "[0, 0, 0, 0, 0, 0, 0, 0, 0, 0, 128, 63] :: byte list"
  have h: "0 \<le> argmem (registry 1) \<and> nat (argmem (registry 1)) \<le> length ?N"
    by (simp add: registry_def diffuse_def argmem_def)
  have t: "take (nat (argmem (registry 1))) ?N = ?N"
    by (simp add: registry_def diffuse_def argmem_def)
  from set_is_clear_then_add_component [of registry 1 _ "ClosureColor_new :: real ClosureColor" ?N] h
  show ?thesis unfolding t by blast
qed

section \<open>The cached argument count\<close>

lemma nargs_ok_append:
  "nargs_ok H (cc\<lparr>m_components := xs @ ys, m_mem := m\<rparr>)
     = (list_all (\<lambda>c. nargs c = nargs_prim (H (cprim c))) xs
        \<and> list_all (\<lambda>c. nargs c = nargs_prim (H (cprim c))) ys)"
  by (simp add: nargs_ok_def)

lemma nargs_ok_add_component:
  "add_component H p w ps cc = Inr cc' \<Longrightarrow> nargs_ok H cc \<Longrightarrow> nargs_ok H cc'"
  by (auto simp: add_component_def nargs_ok_def Component_new_def Let_def
           split: if_splits option.splits)

lemma nargs_ok_clear: "nargs_ok H (clear cc)"
  by (simp add: nargs_ok_def clear_def)

lemma nargs_ok_add: "nargs_ok H cc \<Longrightarrow> nargs_ok H (add H A cc)"
  by (auto simp: nargs_ok_def add_def Component_copy_def list_all_iff)

lemma nargs_ok_mul_float: "nargs_ok H cc \<Longrightarrow> nargs_ok H (mul_float f cc)"
  by (auto simp: nargs_ok_def mul_float_def list_all_iff)

lemma nargs_ok_mul_color: "nargs_ok H cc \<Longrightarrow> nargs_ok H (mul_color w cc)"
  by (auto simp: nargs_ok_def mul_color_def list_all_iff)

lemma set_parameter_components:
  "set_parameter tsize H ci param data cc = Inr cc' \<Longrightarrow> m_components cc' = m_components cc"
  by (auto simp: set_parameter_def split: sum.splits)

lemma nargs_ok_set_parameter:
  "set_parameter tsize H ci param data cc = Inr cc' \<Longrightarrow> nargs_ok H cc \<Longrightarrow> nargs_ok H cc'"
  by (simp add: nargs_ok_def set_parameter_components)

text \<open>
  Claim C9. For every component held by a closure buffer the cached argument count
  equals the argument count of its primitive (\<^verbatim>\<open>nargs == cprim->nargs()\<close>). Both
  constructors of \<^verbatim>\<open>Component\<close> establish it, the constructing and the copying one, so
  no buffer operation produces a component whose cached count disagrees with its
  descriptor: \<^verbatim>\<open>clear\<close>, \<^verbatim>\<open>set\<close> and \<^verbatim>\<open>add(a, b)\<close> establish it for the whole buffer, and
  \<^verbatim>\<open>add_component\<close>, \<^verbatim>\<open>add(A)\<close>, \<^verbatim>\<open>mul\<close> and \<^verbatim>\<open>set_parameter\<close> keep it.
\<close>

theorem component_nargs_cached:
  "nargs (Component_new H p w) = nargs_prim (H (cprim (Component_new H p w)))
   \<and> nargs (Component_copy H x) = nargs_prim (H (cprim (Component_copy H x)))
   \<and> nargs_ok H (clear cc)
   \<and> (\<forall>ps cc'. set_cc H p ps cc = Inr cc' \<longrightarrow> nargs_ok H cc')
   \<and> nargs_ok H (add_ab H a b cc)
   \<and> (nargs_ok H cc \<longrightarrow>
        (\<forall>ps cc'. add_component H p w ps cc = Inr cc' \<longrightarrow> nargs_ok H cc')
        \<and> nargs_ok H (add H A cc)
        \<and> nargs_ok H (mul_float f cc)
        \<and> nargs_ok H (mul_color w cc)
        \<and> (\<forall>tsize ci param data cc'.
              set_parameter tsize H ci param data cc = Inr cc' \<longrightarrow> nargs_ok H cc'))"
proof -
  have new: "nargs (Component_new H p w) = nargs_prim (H (cprim (Component_new H p w)))"
    by (simp add: Component_new_def)
  have copy: "nargs (Component_copy H x) = nargs_prim (H (cprim (Component_copy H x)))"
    by (simp add: Component_copy_def)
  have set: "nargs_ok H cc'" if "set_cc H p ps cc = Inr cc'" for ps cc'
    using that nargs_ok_add_component [of H p _ ps "clear cc" cc'] nargs_ok_clear [of H cc]
    by (simp add: set_cc_def)
  have ab: "nargs_ok H (add_ab H a b cc)"
    by (simp add: add_ab_def nargs_ok_add nargs_ok_clear)
  show ?thesis
    using new copy set ab nargs_ok_clear [of H cc] nargs_ok_add_component [of H p w _ cc]
      nargs_ok_add [of H cc A] nargs_ok_mul_float [of H cc f] nargs_ok_mul_color [of H cc w]
      nargs_ok_set_parameter [of _ H _ _ _ cc]
    by blast
qed

theorem component_nargs_cached_witness:
  "nargs_ok registry unit_diffuse
   \<and> (\<exists>cc'. set_cc registry 2 None unit_diffuse = Inr cc' \<and> nargs_ok registry cc')
   \<and> (\<exists>cc'. add_component registry 2 (Color3 1 0 0) None unit_diffuse = Inr cc'
          \<and> nargs_ok registry cc')
   \<and> nargs_ok registry (add registry unit_diffuse unit_diffuse)
   \<and> nargs_ok registry (mul_float 2 unit_diffuse)
   \<and> nargs_ok registry (mul_color (Color3 1 0 0) unit_diffuse)
   \<and> (\<exists>cc'. set_parameter TypeDesc_size registry 0 0 (replicate 12 1) unit_diffuse = Inr cc'
          \<and> nargs_ok registry cc')"
proof -
  have h: "nargs_ok registry unit_diffuse"
    by (simp add: nargs_ok_def unit_diffuse_def registry_def diffuse_def nargs_prim_def)
  have s: "\<exists>cc'. set_cc registry 2 None unit_diffuse = Inr cc'"
    by (simp add: set_cc_def add_component_def registry_def glossy_def argmem_def)
  have a: "\<exists>cc'. add_component registry 2 (Color3 1 0 0) None unit_diffuse = Inr cc'"
    by (simp add: add_component_def registry_def glossy_def argmem_def)
  have p: "\<exists>cc'. set_parameter TypeDesc_size registry 0 0 (replicate 12 1) unit_diffuse = Inr cc'"
    by (simp add: set_parameter_def component_def argoffset_def argtype_def memcpy_at_def
          unit_diffuse_def registry_def diffuse_def)
  from component_nargs_cached [of registry 2 "Color3 1 0 0" _ unit_diffuse _ _ unit_diffuse 2] h s a p
  show ?thesis by blast
qed

section \<open>Adding buffers keeps every component\<close>

lemma add_components:
  "m_components (add H A cc) =
     m_components cc @
     map (\<lambda>c. \<lparr>cprim = cprim c, nargs = nargs_prim (H (cprim c)),
                memoffset = int (length (m_mem cc)) + memoffset c, weight = weight c\<rparr>)
       (m_components A)"
  by (simp add: add_def Component_copy_def)

lemma add_mem: "m_mem (add H A cc) = m_mem cc @ m_mem A"
  by (simp add: add_def)

lemma clear_fields: "m_components (clear cc) = []" "m_mem (clear cc) = []"
  by (simp_all add: clear_def)

lemma add_ab_components:
  "m_components (add_ab H a b cc) =
     map (\<lambda>c. \<lparr>cprim = cprim c, nargs = nargs_prim (H (cprim c)),
                memoffset = memoffset c, weight = weight c\<rparr>) (m_components a) @
     map (\<lambda>c. \<lparr>cprim = cprim c, nargs = nargs_prim (H (cprim c)),
                memoffset = int (length (m_mem a)) + memoffset c, weight = weight c\<rparr>)
       (m_components b)"
  by (simp add: add_ab_def add_components add_mem clear_fields)

lemma add_ab_mem: "m_mem (add_ab H a b cc) = m_mem a @ m_mem b"
  by (simp add: add_ab_def add_mem clear_fields)

lemma add_component_clear:
  "add_component H p w ps (clear x) = Inr r \<Longrightarrow>
     m_components r = [\<lparr>cprim = p, nargs = nargs_prim (H p), memoffset = 0, weight = w\<rparr>]"
  by (auto simp: add_component_def Component_new_def clear_def Let_def
           split: if_splits option.splits)

text \<open>
  Claim C5. For every pair of closure buffers \<open>a\<close> and \<open>b\<close>, the component count of
  \<^verbatim>\<open>add(a, b)\<close> is the component count of \<open>a\<close> plus that of \<open>b\<close> (and the in-place
  \<^verbatim>\<open>add(A)\<close> adds the count of \<open>A\<close>); the weights and primitives of the result are
  those of \<open>a\<close> followed by those of \<open>b\<close>, index by index. In particular, adding two
  one-component buffers built on the same primitive with the weights \<open>(1, 0, 0)\<close> and
  \<open>(0, 1, 0)\<close> gives a two-component buffer whose weights are exactly the two input
  weights: they are never merged into one component.
\<close>

theorem add_keeps_every_component:
  "ncomponents (add_ab H a b cc) = ncomponents a + ncomponents b
   \<and> ncomponents (add H A cc) = ncomponents cc + ncomponents A
   \<and> map weight (m_components (add_ab H a b cc))
        = map weight (m_components a) @ map weight (m_components b)
   \<and> map cprim (m_components (add_ab H a b cc))
        = map cprim (m_components a) @ map cprim (m_components b)
   \<and> ((\<exists>x ps. add_component H p (Color3 1 0 0) ps (clear x) = Inr a1)
        \<and> (\<exists>y ps. add_component H p (Color3 0 1 0) ps (clear y) = Inr b1) \<longrightarrow>
        ncomponents a1 = 1 \<and> ncomponents b1 = 1
        \<and> ncomponents (add_ab H a1 b1 cc) = 2
        \<and> weight_cc (add_ab H a1 b1 cc) 0 = Inr (Color3 1 0 0)
        \<and> weight_cc (add_ab H a1 b1 cc) 1 = Inr (Color3 0 1 0)
        \<and> prim (add_ab H a1 b1 cc) 0 = Inr p
        \<and> prim (add_ab H a1 b1 cc) 1 = Inr p)"
proof -
  have scen: "ncomponents a1 = 1 \<and> ncomponents b1 = 1
        \<and> ncomponents (add_ab H a1 b1 cc) = 2
        \<and> weight_cc (add_ab H a1 b1 cc) 0 = Inr (Color3 1 0 0)
        \<and> weight_cc (add_ab H a1 b1 cc) 1 = Inr (Color3 0 1 0)
        \<and> prim (add_ab H a1 b1 cc) 0 = Inr p
        \<and> prim (add_ab H a1 b1 cc) 1 = Inr p"
    if a: "add_component H p (Color3 1 0 0) ps (clear x) = Inr a1"
      and b: "add_component H p (Color3 0 1 0) ps' (clear y) = Inr b1" for x y ps ps'
    using add_component_clear [OF a] add_component_clear [OF b]
    by (simp add: ncomponents_def weight_cc_def prim_def component_def add_ab_components)
  show ?thesis
    using scen
    by (auto simp add: ncomponents_def add_ab_components add_components comp_def)
qed

theorem add_keeps_every_component_witness:
  "\<exists>a1 b1. add_component registry 1 (Color3 1 0 0) None (clear unit_diffuse) = Inr a1
     \<and> add_component registry 1 (Color3 0 1 0) None (clear unit_diffuse) = Inr b1
     \<and> ncomponents (add_ab registry a1 b1 unit_diffuse) = 2
     \<and> weight_cc (add_ab registry a1 b1 unit_diffuse) 0 = Inr (Color3 1 0 0)
     \<and> weight_cc (add_ab registry a1 b1 unit_diffuse) 1 = Inr (Color3 0 1 0)"
proof -
  obtain a1 where a: "add_component registry 1 (Color3 1 0 0) None (clear unit_diffuse) = Inr a1"
    by (simp add: add_component_def registry_def diffuse_def argmem_def)
  obtain b1 where b: "add_component registry 1 (Color3 0 1 0) None (clear unit_diffuse) = Inr b1"
    by (simp add: add_component_def registry_def diffuse_def argmem_def)
  from add_keeps_every_component [of registry _ _ unit_diffuse _ 1 a1 b1] a b
  have "ncomponents (add_ab registry a1 b1 unit_diffuse) = 2
     \<and> weight_cc (add_ab registry a1 b1 unit_diffuse) 0 = Inr (Color3 1 0 0)
     \<and> weight_cc (add_ab registry a1 b1 unit_diffuse) 1 = Inr (Color3 0 1 0)"
    by blast
  with a b show ?thesis by blast
qed

section \<open>Multiplying a buffer\<close>

lemma component_mul_float:
  "component (mul_float f cc) i =
     (case component cc i of Inl e \<Rightarrow> Inl e
      | Inr c \<Rightarrow> Inr (c\<lparr>weight := Color3_scale (weight c) f\<rparr>))"
  by (auto simp: component_def mul_float_def)

lemma component_mul_color:
  "component (mul_color w cc) i =
     (case component cc i of Inl e \<Rightarrow> Inl e
      | Inr c \<Rightarrow> Inr (c\<lparr>weight := Color3_times (weight c) w\<rparr>))"
  by (auto simp: component_def mul_color_def)

lemma mul_mem: "m_mem (mul_float f cc) = m_mem cc" "m_mem (mul_color w cc) = m_mem cc"
  by (simp_all add: mul_float_def mul_color_def)

lemma mul_accessors:
  "prim (mul_float f cc) i = prim cc i"
  "compdata (mul_float f cc) i = compdata cc i"
  "weight_cc (mul_float f cc) i
     = (case weight_cc cc i of Inl e \<Rightarrow> Inl e | Inr v \<Rightarrow> Inr (Color3_scale v f))"
  "prim (mul_color w cc) i = prim cc i"
  "compdata (mul_color w cc) i = compdata cc i"
  "weight_cc (mul_color w cc) i
     = (case weight_cc cc i of Inl e \<Rightarrow> Inl e | Inr v \<Rightarrow> Inr (Color3_times v w))"
  by (simp_all add: prim_def compdata_def weight_cc_def component_mul_float component_mul_color
        mul_mem split: sum.splits)

text \<open>
  Claim C6. For every closure buffer and every scalar \<open>f\<close> or colour \<open>w\<close>,
  \<^verbatim>\<open>mul(f)\<close> and \<^verbatim>\<open>mul(w)\<close> multiply the weight of every component by the given factor
  and leave the bytes of the parameter arena, the component count and the primitive, the
  memoffset and the cached argument count of every component unchanged. The new weight
  is the product, channel by channel, whatever the factor is: nothing is renormalised or
  clamped, so a negative or super-unity multiplier is passed through to the weights.
\<close>

theorem mul_scales_weights_only:
  "m_mem (mul_float f cc) = m_mem cc
   \<and> ncomponents (mul_float f cc) = ncomponents cc
   \<and> map cprim (m_components (mul_float f cc)) = map cprim (m_components cc)
   \<and> map memoffset (m_components (mul_float f cc)) = map memoffset (m_components cc)
   \<and> map nargs (m_components (mul_float f cc)) = map nargs (m_components cc)
   \<and> map weight (m_components (mul_float f cc))
        = map (\<lambda>c. Color3_scale (weight c) f) (m_components cc)
   \<and> (\<forall>i. prim (mul_float f cc) i = prim cc i)
   \<and> (\<forall>i. compdata (mul_float f cc) i = compdata cc i)
   \<and> (\<forall>i. weight_cc (mul_float f cc) i
          = (case weight_cc cc i of Inl e \<Rightarrow> Inl e | Inr v \<Rightarrow> Inr (Color3_scale v f)))
   \<and> m_mem (mul_color w cc) = m_mem cc
   \<and> ncomponents (mul_color w cc) = ncomponents cc
   \<and> map cprim (m_components (mul_color w cc)) = map cprim (m_components cc)
   \<and> map memoffset (m_components (mul_color w cc)) = map memoffset (m_components cc)
   \<and> map nargs (m_components (mul_color w cc)) = map nargs (m_components cc)
   \<and> map weight (m_components (mul_color w cc))
        = map (\<lambda>c. Color3_times (weight c) w) (m_components cc)
   \<and> (\<forall>i. prim (mul_color w cc) i = prim cc i)
   \<and> (\<forall>i. compdata (mul_color w cc) i = compdata cc i)
   \<and> (\<forall>i. weight_cc (mul_color w cc) i
          = (case weight_cc cc i of Inl e \<Rightarrow> Inl e | Inr v \<Rightarrow> Inr (Color3_times v w)))
   \<and> Color3_scale (Color3 r g b) f = Color3 (r * f) (g * f) (b * f)
   \<and> Color3_times (Color3 r g b) (Color3 r' g' b') = Color3 (r * r') (g * g') (b * b')"
proof -
  have "map cprim (m_components (mul_float f cc)) = map cprim (m_components cc)"
    "map memoffset (m_components (mul_float f cc)) = map memoffset (m_components cc)"
    "map nargs (m_components (mul_float f cc)) = map nargs (m_components cc)"
    "map weight (m_components (mul_float f cc))
        = map (\<lambda>c. Color3_scale (weight c) f) (m_components cc)"
    "map cprim (m_components (mul_color w cc)) = map cprim (m_components cc)"
    "map memoffset (m_components (mul_color w cc)) = map memoffset (m_components cc)"
    "map nargs (m_components (mul_color w cc)) = map nargs (m_components cc)"
    "map weight (m_components (mul_color w cc))
        = map (\<lambda>c. Color3_times (weight c) w) (m_components cc)"
    "ncomponents (mul_float f cc) = ncomponents cc"
    "ncomponents (mul_color w cc) = ncomponents cc"
    by (simp_all add: mul_float_def mul_color_def ncomponents_def comp_def)
  then show ?thesis
    by (simp add: mul_accessors mul_mem)
qed

theorem mul_scales_weights_only_witness:
  "weight_cc (mul_float (-2) unit_diffuse) 0 = Inr (Color3 (-2) (-2) (-2))
   \<and> weight_cc (mul_float 1000 unit_diffuse) 0 = Inr (Color3 1000 1000 1000)
   \<and> weight_cc (mul_color (Color3 (-1) 3 0) unit_diffuse) 0 = Inr (Color3 (-1) 3 0)"
proof -
  have w: "weight_cc unit_diffuse 0 = Inr (Color3 1 1 1)"
    by (simp add: weight_cc_def component_def unit_diffuse_def)
  from mul_scales_weights_only [of "-2" unit_diffuse "Color3 (-1) 3 0"]
    mul_scales_weights_only [of 1000 unit_diffuse "Color3 (-1) 3 0"] w
  show ?thesis by simp
qed

section \<open>The invariants of the data model are kept\<close>

text \<open>Every descriptor the constructor builds satisfies the layout invariant, and the
  buffer operations keep every component's slot inside the arena. These are the
  conditions under which a component index and a parameter index are valid.\<close>

lemma closure_ok_new: "closure_ok H ClosureColor_new"
  by (simp add: closure_ok_def ClosureColor_new_def)

lemma closure_ok_clear: "closure_ok H (clear cc)"
  by (simp add: closure_ok_def clear_def)

lemma component_ok_mono: "component_ok H n c \<Longrightarrow> n \<le> m \<Longrightarrow> component_ok H m c"
  by (simp add: component_ok_def)

lemma closure_ok_add_component:
  assumes "add_component H p w ps cc = Inr cc'" "closure_ok H cc"
  shows "closure_ok H cc'"
proof -
  let ?new = "\<lparr>cprim = p, nargs = nargs_prim (H p), memoffset = int (length (m_mem cc)), weight = w\<rparr>"
  from assms(1) have am: "0 \<le> argmem (H p)"
    by (auto simp: add_component_def Let_def split: if_splits)
  from assms(1) have comps: "m_components cc' = m_components cc @ [?new]"
    and len: "length (m_mem cc') = length (m_mem cc) + nat (argmem (H p))"
    by (auto simp: add_component_def Component_new_def Let_def split: if_splits option.splits)
  from am len have "component_ok H (length (m_mem cc')) ?new"
    by (simp add: component_ok_def)
  moreover from assms(2) len have "list_all (component_ok H (length (m_mem cc'))) (m_components cc)"
    by (auto simp: closure_ok_def list_all_iff intro: component_ok_mono)
  ultimately show ?thesis by (simp add: closure_ok_def comps)
qed

lemma closure_ok_set_parameter:
  assumes "set_parameter tsize H ci param data cc = Inr cc'" "closure_ok H cc"
  shows "closure_ok H cc'"
proof -
  from assms(1) have "m_components cc' = m_components cc" "length (m_mem cc') = length (m_mem cc)"
    by (auto simp: set_parameter_def memcpy_at_def split: sum.splits if_splits)
  with assms(2) show ?thesis by (simp add: closure_ok_def)
qed

lemma closure_ok_mul: "closure_ok H cc \<Longrightarrow> closure_ok H (mul_float f cc)"
  "closure_ok H cc \<Longrightarrow> closure_ok H (mul_color w cc)"
  by (auto simp: closure_ok_def mul_float_def mul_color_def list_all_iff component_ok_def)

lemma sum_list_take_le:
  "\<forall>x \<in> set xs. (0::int) \<le> x \<Longrightarrow> sum_list (take n xs) \<le> sum_list xs"
proof -
  assume nn: "\<forall>x \<in> set xs. (0::int) \<le> x"
  have "sum_list xs = sum_list (take n xs) + sum_list (drop n xs)"
    by (metis append_take_drop_id sum_list_append)
  moreover have "0 \<le> sum_list (drop n xs)"
    using nn by (intro sum_list_nonneg) (auto dest: in_set_dropD)
  ultimately show ?thesis by simp
qed

lemma layout_inv_ok:
  assumes "layout_inv tsize p"
  shows "layout_ok tsize p"
proof -
  let ?sz = "map (\<lambda>t. int (tsize t)) (m_argtypes p)"
  from assms have offs: "m_argoffsets p = exclusive_prefix_sums 0 ?sz"
    and mem: "m_argmem p = sum_list ?sz" and n: "m_nargs p = int (length (m_argtypes p))"
    by (simp_all add: layout_inv_def)
  have lo: "length (m_argoffsets p) = length (m_argtypes p)"
    by (simp add: offs eps_length)
  have nn: "\<forall>x \<in> set ?sz. 0 \<le> x" by auto
  have slot: "0 \<le> m_argoffsets p ! i \<and> m_argoffsets p ! i + int (tsize (m_argtypes p ! i)) \<le> m_argmem p"
    if i: "i < length (m_argtypes p)" for i
  proof -
    have o: "m_argoffsets p ! i = sum_list (take i ?sz)"
      using i by (simp add: offs eps_nth)
    have "take (Suc i) ?sz = take i ?sz @ [int (tsize (m_argtypes p ! i))]"
      using i by (simp add: take_Suc_conv_app_nth)
    then have "sum_list (take i ?sz) + int (tsize (m_argtypes p ! i)) = sum_list (take (Suc i) ?sz)"
      by simp
    also have "\<dots> \<le> sum_list ?sz" using nn by (rule sum_list_take_le)
    finally have "m_argoffsets p ! i + int (tsize (m_argtypes p ! i)) \<le> m_argmem p"
      by (simp add: o mem)
    moreover have "0 \<le> sum_list (take i ?sz)"
      using nn by (intro sum_list_nonneg) (blast dest: in_set_takeD)
    ultimately show ?thesis by (simp add: o)
  qed
  show ?thesis
    using lo n slot by (simp add: layout_ok_def list_all_length)
qed

lemma layout_ok_ctor:
  assumes "ClosurePrimitive_ctor decode tsize name codes cat = Inr d"
  shows "layout_ok tsize d"
proof -
  have "layout_inv tsize \<lparr>m_name = name, m_category = cat, m_nargs = 0, m_argmem = 0,
        m_argtypes = [], m_argoffsets = [], m_argcodes = codes\<rparr>"
    by (simp add: layout_inv_def)
  with assms have "layout_inv tsize d"
    unfolding ClosurePrimitive_ctor_def by (rule parse_argtypes_inv)
  then show ?thesis by (rule layout_inv_ok)
qed

section \<open>Late binding of one parameter\<close>

lemma component_Inr:
  "component cc i = Inr c \<longleftrightarrow>
     0 \<le> i \<and> i < ncomponents cc \<and> c = m_components cc ! nat i"
  by (auto simp: component_def ncomponents_def)

lemma closure_ok_component:
  assumes "closure_ok H cc" "component cc i = Inr c"
  shows "component_ok H (length (m_mem cc)) c"
proof -
  from assms(2) have "nat i < length (m_components cc)" "c = m_components cc ! nat i"
    by (auto simp: component_Inr ncomponents_def)
  with assms(1) show ?thesis
    by (simp add: closure_ok_def list_all_length)
qed

lemma layout_ok_slot:
  assumes lay: "layout_ok tsize p" and off: "argoffset p i = Inr off" and ty: "argtype p i = Inr t"
  shows "0 \<le> off \<and> off + int (tsize t) \<le> argmem p"
proof -
  from off have i: "0 \<le> i" "nat i < length (m_argoffsets p)" and o: "off = m_argoffsets p ! nat i"
    by (auto simp: argoffset_def split: if_splits)
  from ty have t: "t = m_argtypes p ! nat i"
    by (auto simp: argtype_def split: if_splits)
  from lay have len: "length (m_argoffsets p) = length (m_argtypes p)"
    and all: "list_all (\<lambda>(off, t). 0 \<le> off \<and> off + int (tsize t) \<le> m_argmem p)
           (zip (m_argoffsets p) (m_argtypes p))"
    by (simp_all add: layout_ok_def)
  from i len have "nat i < length (zip (m_argoffsets p) (m_argtypes p))" by simp
  with all have "(\<lambda>(off, t). 0 \<le> off \<and> off + int (tsize t) \<le> m_argmem p)
      (zip (m_argoffsets p) (m_argtypes p) ! nat i)"
    by (simp only: list_all_length)
  with i len o t show ?thesis by (simp add: argmem_def)
qed

lemma memcpy_at_nth:
  assumes "a + n \<le> length mem" "n \<le> length src" "k < length mem"
  shows "(take a mem @ take n src @ drop (a + n) mem) ! k
           = (if a \<le> k \<and> k < a + n then src ! (k - a) else mem ! k)"
proof -
  from assms have la: "length (take a mem) = a" and ln: "length (take n src) = n" by simp_all
  consider "k < a" | "a \<le> k" "k < a + n" | "a + n \<le> k" by linarith
  then show ?thesis
  proof cases
    case 1
    then show ?thesis using la by (simp add: nth_append)
  next
    case 2
    then have "k - a < n" by linarith
    with 2 show ?thesis using la ln by (simp add: nth_append)
  next
    case 3
    then have "\<not> k < a" "\<not> k - a < n" by linarith+
    then have "(take a mem @ take n src @ drop (a + n) mem) ! k = drop (a + n) mem ! (k - a - n)"
      using la ln by (simp add: nth_append)
    also have "\<dots> = mem ! k" using 3 assms by simp
    finally show ?thesis using 3 by simp
  qed
qed

lemma memcpy_at_slot:
  assumes "a + n \<le> length mem" "n \<le> length src"
  shows "take n (drop a (take a mem @ take n src @ drop (a + n) mem)) = take n src"
  using assms by simp

text \<open>
  Claim C7. For every closure buffer, valid component index \<open>ci\<close> (the component
  \<open>c\<close> it addresses has its slot inside the arena, as every component issued by
  \<^verbatim>\<open>add_component\<close> has) and valid parameter index \<open>param\<close> of that component's
  descriptor (with offset \<open>off\<close> and type \<open>t\<close>), \<^verbatim>\<open>set_parameter(ci, param, data)\<close>
  is defined and overwrites exactly \<open>size t\<close> bytes of the arena, starting at the
  component's memoffset plus \<open>off\<close>, with the first \<open>size t\<close> bytes of \<open>data\<close>. The
  overwritten bytes lie inside the component's own slot. Every other byte of the arena,
  the component list and all weights are unchanged.
\<close>

theorem set_parameter_overwrites_one_argument:
  assumes comp: "component cc ci = Inr c"
      and off: "argoffset (H (cprim c)) param = Inr off"
      and ty: "argtype (H (cprim c)) param = Inr t"
      and ok: "closure_ok H cc"
      and lay: "layout_ok tsize (H (cprim c))"
      and data: "tsize t \<le> length data"
  shows "\<exists>cc'. set_parameter tsize H ci param data cc = Inr cc'
     \<and> m_components cc' = m_components cc
     \<and> length (m_mem cc') = length (m_mem cc)
     \<and> 0 \<le> memoffset c + off
     \<and> memoffset c + off + int (tsize t) \<le> memoffset c + argmem (H (cprim c))
     \<and> memoffset c + argmem (H (cprim c)) \<le> int (length (m_mem cc))
     \<and> take (tsize t) (drop (nat (memoffset c + off)) (m_mem cc')) = take (tsize t) data
     \<and> (\<forall>k. k < length (m_mem cc) \<longrightarrow>
           m_mem cc' ! k =
             (if nat (memoffset c + off) \<le> k \<and> k < nat (memoffset c + off) + tsize t
              then data ! (k - nat (memoffset c + off)) else m_mem cc ! k))
     \<and> (\<forall>i. component cc' i = component cc i)
     \<and> (\<forall>i. weight_cc cc' i = weight_cc cc i)
     \<and> (\<forall>i. prim cc' i = prim cc i)"
proof -
  let ?a = "nat (memoffset c + off)" and ?n = "tsize t"
  let ?mem' = "take ?a (m_mem cc) @ take ?n data @ drop (?a + ?n) (m_mem cc)"
  from closure_ok_component [OF ok comp]
  have c: "0 \<le> memoffset c" "memoffset c + argmem (H (cprim c)) \<le> int (length (m_mem cc))"
    by (simp_all add: component_ok_def)
  from layout_ok_slot [OF lay off ty]
  have s: "0 \<le> off" "off + int ?n \<le> argmem (H (cprim c))" by simp_all
  from c s have fit: "0 \<le> memoffset c + off" "?a + ?n \<le> length (m_mem cc)"
    by linarith+
  then have "memcpy_at (m_mem cc) (memoffset c + off) data ?n = Inr ?mem'"
    using data by (simp add: memcpy_at_def)
  then have run: "set_parameter tsize H ci param data cc = Inr (cc\<lparr>m_mem := ?mem'\<rparr>)"
    using comp off ty by (simp add: set_parameter_def)
  have len: "length ?mem' = length (m_mem cc)"
    using fit data by simp
  have slot: "take ?n (drop ?a ?mem') = take ?n data"
    using fit(2) data by (rule memcpy_at_slot)
  have nth: "?mem' ! k = (if ?a \<le> k \<and> k < ?a + ?n then data ! (k - ?a) else m_mem cc ! k)"
    if "k < length (m_mem cc)" for k
    using fit(2) data that by (rule memcpy_at_nth)
  have acc: "component (cc\<lparr>m_mem := ?mem'\<rparr>) i = component cc i"
    "weight_cc (cc\<lparr>m_mem := ?mem'\<rparr>) i = weight_cc cc i"
    "prim (cc\<lparr>m_mem := ?mem'\<rparr>) i = prim cc i" for i
    by (simp_all add: component_def weight_cc_def prim_def)
  show ?thesis
    using run len slot nth acc c s fit by simp
qed

theorem set_parameter_overwrites_one_argument_witness:
  "\<exists>cc'. set_parameter TypeDesc_size registry 1 1 [0, 0, 128, 63] diffuse_glossy = Inr cc'
     \<and> m_components cc' = m_components diffuse_glossy
     \<and> length (m_mem cc') = 32
     \<and> take 4 (drop 24 (m_mem cc')) = [0, 0, 128, 63]
     \<and> m_mem cc' ! 23 = 0 \<and> m_mem cc' ! 26 = 128 \<and> m_mem cc' ! 27 = 63 \<and> m_mem cc' ! 28 = 0
     \<and> m_mem cc' ! 11 = 63"
proof -
  let ?c = "\<lparr>cprim = 2, nargs = 3, memoffset = 12, weight = Color3 (1/2) (1/2) (1/2 :: real)\<rparr>"
  have comp: "component diffuse_glossy 1 = Inr ?c"
    by (simp add: component_def diffuse_glossy_def)
  have off: "argoffset (registry (cprim ?c)) 1 = Inr 12"
    by (simp add: argoffset_def registry_def glossy_def)
  have ty: "argtype (registry (cprim ?c)) 1 = Inr TypeFloat"
    by (simp add: argtype_def registry_def glossy_def)
  have data: "TypeDesc_size TypeFloat \<le> length [0, 0, 128, 63 :: byte]" by simp
  from set_parameter_overwrites_one_argument
    [OF comp off ty closure_ok_diffuse_glossy layout_ok_registry data]
  obtain cc' where run: "set_parameter TypeDesc_size registry 1 1 [0, 0, 128, 63] diffuse_glossy = Inr cc'"
    and comps: "m_components cc' = m_components diffuse_glossy"
    and len: "length (m_mem cc') = length (m_mem diffuse_glossy)"
    and slot: "take (TypeDesc_size TypeFloat) (drop (nat (memoffset ?c + 12)) (m_mem cc'))
                 = take (TypeDesc_size TypeFloat) [0, 0, 128, 63]"
    and nth: "\<forall>k. k < length (m_mem diffuse_glossy) \<longrightarrow>
           m_mem cc' ! k =
             (if nat (memoffset ?c + 12) \<le> k \<and> k < nat (memoffset ?c + 12) + TypeDesc_size TypeFloat
              then [0, 0, 128, 63] ! (k - nat (memoffset ?c + 12)) else m_mem diffuse_glossy ! k)"
    by blast
  have l: "length (m_mem diffuse_glossy) = 32" by (simp add: diffuse_glossy_def)
  have old: "m_mem diffuse_glossy ! 23 = 0" "m_mem diffuse_glossy ! 28 = 0"
    "m_mem diffuse_glossy ! 11 = 63"
    by (simp_all add: diffuse_glossy_def nth_append)
  from nth [rule_format, of 23] nth [rule_format, of 26] nth [rule_format, of 27]
    nth [rule_format, of 28] nth [rule_format, of 11] l old
  have "m_mem cc' ! 23 = 0 \<and> m_mem cc' ! 26 = 128 \<and> m_mem cc' ! 27 = 63 \<and> m_mem cc' ! 28 = 0
     \<and> m_mem cc' ! 11 = 63"
    by simp
  moreover from slot have "take 4 (drop 24 (m_mem cc')) = [0, 0, 128, 63]" by simp
  ultimately show ?thesis using run comps len l by simp
qed

section \<open>Copies of components and the growth of the component vector\<close>

text \<open>The copy constructor of \<^verbatim>\<open>Component\<close> keeps the primitive and the weight and
  re-reads the argument count, but it does not keep the offset: whoever copies a
  component has to record where its bytes are.\<close>

lemma Component_copy_fields:
  "cprim (Component_copy H x) = cprim x \<and> weight (Component_copy H x) = weight x
   \<and> nargs (Component_copy H x) = nargs_prim (H (cprim x))
   \<and> memoffset (Component_copy H x) = 0"
  by (simp add: Component_copy_def)

text \<open>A growth of the component vector keeps the arena, the number of components, their
  weights and their primitives, and it leaves every cached argument count right and
  every slot inside the arena. It does not keep the recorded offsets: all of them are 0
  afterwards.\<close>

lemma vector_growth_keeps:
  "m_mem (vector_growth H cc) = m_mem cc
   \<and> ncomponents (vector_growth H cc) = ncomponents cc
   \<and> map weight (m_components (vector_growth H cc)) = map weight (m_components cc)
   \<and> map cprim (m_components (vector_growth H cc)) = map cprim (m_components cc)
   \<and> nargs_ok H (vector_growth H cc)"
  by (simp add: vector_growth_def ncomponents_def nargs_ok_def Component_copy_def comp_def
        list_all_iff)

lemma vector_growth_offsets:
  "map memoffset (m_components (vector_growth H cc)) = replicate (length (m_components cc)) 0"
  by (simp add: vector_growth_def Component_copy_def comp_def map_replicate_const)

lemma closure_ok_vector_growth:
  assumes "closure_ok H cc"
  shows "closure_ok H (vector_growth H cc)"
proof -
  have "component_ok H n (Component_copy H c)" if "component_ok H n c" for n and c :: "'b Component"
    using that by (simp add: component_ok_def Component_copy_def)
  with assms show ?thesis
    by (simp add: closure_ok_def vector_growth_def list_all_iff)
qed

text \<open>In the buffer of two components the second one has 20 zero bytes as its
  parameters. After a growth of the component vector its recorded offset is 0, and the
  20 bytes read there are the normal of the first component and 8 zero bytes.\<close>

lemma vector_growth_loses_offsets:
  "packed_params registry diffuse_glossy 1 = Inr (replicate 20 0)
   \<and> packed_params registry (vector_growth registry diffuse_glossy) 1
        = Inr ([0, 0, 0, 0, 0, 0, 0, 0, 0, 0, 128, 63] @ replicate 8 0)"
  by (simp add: packed_params_def compdata_def component_def vector_growth_def
        Component_copy_def diffuse_glossy_def registry_def glossy_def argmem_def)

text \<open>In the model of \<open>add\<close> every slot stays inside the arena.\<close>

lemma closure_ok_add:
  assumes "closure_ok H cc" "closure_ok H A"
  shows "closure_ok H (add H A cc)"
  using assms
  by (auto simp: closure_ok_def add_components add_mem list_all_iff component_ok_def)

section \<open>Every buffer the interface builds is valid\<close>

text \<open>The validity conditions of the theorems above are no restriction on the buffers
  of a program: whatever the public operations build from a new buffer, with the
  component vector growing in between or not, has every component's slot inside the
  arena and every cached argument count right.\<close>

lemma built_closure_ok: "built H tsize cc \<Longrightarrow> closure_ok H cc"
proof (induction rule: built.induct)
  case built_new
  show ?case by (rule closure_ok_new)
next
  case (built_clear cc)
  show ?case by (rule closure_ok_clear)
next
  case (built_set cc p params cc')
  from built_set.hyps(2) closure_ok_clear [of H cc] show ?case
    unfolding set_cc_def by (rule closure_ok_add_component)
next
  case (built_add_component cc p w params cc')
  from built_add_component.hyps(2) built_add_component.IH show ?case
    by (rule closure_ok_add_component)
next
  case (built_add cc A)
  then show ?case by (simp add: closure_ok_add)
next
  case (built_add_ab cc a b)
  then show ?case by (simp add: add_ab_def closure_ok_add closure_ok_clear)
next
  case (built_mul_float cc f)
  then show ?case by (simp add: closure_ok_mul)
next
  case (built_mul_color cc w)
  then show ?case by (simp add: closure_ok_mul)
next
  case (built_set_parameter cc ci param data cc')
  from built_set_parameter.hyps(2) built_set_parameter.IH show ?case
    by (rule closure_ok_set_parameter)
next
  case (built_growth cc)
  then show ?case by (simp add: closure_ok_vector_growth)
qed

lemma built_nargs_ok: "built H tsize cc \<Longrightarrow> nargs_ok H cc"
proof (induction rule: built.induct)
  case built_new
  show ?case by (simp add: nargs_ok_def ClosureColor_new_def)
next
  case (built_clear cc)
  show ?case by (rule nargs_ok_clear)
next
  case (built_set cc p params cc')
  from built_set.hyps(2) nargs_ok_clear [of H cc] show ?case
    unfolding set_cc_def by (rule nargs_ok_add_component)
next
  case (built_add_component cc p w params cc')
  from built_add_component.hyps(2) built_add_component.IH show ?case
    by (rule nargs_ok_add_component)
next
  case (built_add cc A)
  then show ?case by (simp add: nargs_ok_add)
next
  case (built_add_ab cc a b)
  then show ?case by (simp add: add_ab_def nargs_ok_add nargs_ok_clear)
next
  case (built_mul_float cc f)
  then show ?case by (simp add: nargs_ok_mul_float)
next
  case (built_mul_color cc w)
  then show ?case by (simp add: nargs_ok_mul_color)
next
  case (built_set_parameter cc ci param data cc')
  from built_set_parameter.hyps(2) built_set_parameter.IH show ?case
    by (rule nargs_ok_set_parameter)
next
  case (built_growth cc)
  show ?case by (simp add: vector_growth_keeps)
qed

end
